theory Spec2Isabelle
  imports Complex_Main "HOL-Library.AList" "HOL-Library.Sublist"
begin

section \<open>JavaScript values\<close>

text \<open>
  The routes and the Gemini client handle untyped JSON: the body of a Gemini response, the
  object \<open>JSON.parse\<close> makes of the model's answer, the objects kept in \<open>resumeCache\<close>.
  A value is one of JavaScript's: \<open>undefined\<close>, \<open>null\<close>, a boolean, a number, a string, an
  array or an object. An object is the list of its own properties in insertion order; a
  lookup takes the first entry of a key. Numbers are reals: the code only copies them and
  tests them for zero. Strings are lists of code units below 256.
\<close>

datatype jsval =
    JUndefined
  | JNull
  | JBool bool
  | JNum real
  | JStr string
  | JArr "jsval list"
  | JObj "(string \<times> jsval) list"

datatype js_error = TypeError

fun truthy :: "jsval \<Rightarrow> bool" where
  "truthy JUndefined = False"
| "truthy JNull = False"
| "truthy (JBool b) = b"
| "truthy (JNum n) = (n \<noteq> 0)"
| "truthy (JStr s) = (s \<noteq> [])"
| "truthy (JArr xs) = True"
| "truthy (JObj kvs) = True"

text \<open>\<open>a || b\<close>\<close>

definition or_else :: "jsval \<Rightarrow> jsval \<Rightarrow> jsval" where
  "or_else a b = (if truthy a then a else b)"

fun nullish :: "jsval \<Rightarrow> bool" where
  "nullish JUndefined = True"
| "nullish JNull = True"
| "nullish v = False"

text \<open>
  \<open>js_get v k\<close> is \<open>v.k\<close> for a \<open>v\<close> that is neither \<open>null\<close> nor \<open>undefined\<close> and a key \<open>k\<close>
  that is an identifier of the source (\<open>candidates\<close>, \<open>content\<close>, \<open>parts\<close>, \<open>text\<close>,
  \<open>feedback\<close>, the five feedback keys, the six score keys, \<open>improvementSuggestions\<close>, the
  four provenance keys): none of them is an index or a property that arrays, strings,
  numbers or booleans inherit, so only an object can have one.
\<close>

fun js_get :: "jsval \<Rightarrow> string \<Rightarrow> jsval" where
  "js_get (JObj kvs) k = (case map_of kvs k of Some v \<Rightarrow> v | None \<Rightarrow> JUndefined)"
| "js_get v k = JUndefined"

text \<open>\<open>v.k\<close>, which throws on \<open>null\<close> and \<open>undefined\<close>, and \<open>v?.k\<close>, which does not.\<close>

definition get_member :: "jsval \<Rightarrow> string \<Rightarrow> js_error + jsval" where
  "get_member v k = (if nullish v then Inl TypeError else Inr (js_get v k))"

definition opt_member :: "jsval \<Rightarrow> string \<Rightarrow> jsval" where
  "opt_member v k = (if nullish v then JUndefined else js_get v k)"

text \<open>\<open>v?.[0]\<close>: the first element of an array, the first code unit of a string, the
  property \<open>"0"\<close> of an object.\<close>

fun opt_first :: "jsval \<Rightarrow> jsval" where
  "opt_first (JArr xs) = (case xs of [] \<Rightarrow> JUndefined | x # _ \<Rightarrow> x)"
| "opt_first (JStr s) = (case s of [] \<Rightarrow> JUndefined | c # _ \<Rightarrow> JStr [c])"
| "opt_first (JObj kvs) = (case map_of kvs ''0'' of Some v \<Rightarrow> v | None \<Rightarrow> JUndefined)"
| "opt_first v = JUndefined"

text \<open>Decimal index keys, as the spread of an array or a string names its elements.\<close>

fun nat_to_string :: "nat \<Rightarrow> string" where
  "nat_to_string n =
     (if n < 10 then [''0123456789'' ! n]
      else nat_to_string (n div 10) @ [''0123456789'' ! (n mod 10)])"

declare nat_to_string.simps [simp del]

text \<open>The own enumerable properties a spread \<open>...v\<close> copies, in order.\<close>

fun own_props :: "jsval \<Rightarrow> (string \<times> jsval) list" where
  "own_props (JObj kvs) = AList.clearjunk kvs"
| "own_props (JArr xs) = zip (map nat_to_string [0..<length xs]) xs"
| "own_props (JStr s) = zip (map nat_to_string [0..<length s]) (map (\<lambda>c. JStr [c]) s)"
| "own_props v = []"

text \<open>
  An object literal is built left to right: \<open>k: v\<close> replaces the value of a key the object
  has and appends a new key otherwise (\<open>AList.update\<close>); \<open>...v\<close> does so for each own
  property of \<open>v\<close>.
\<close>

definition obj_spread :: "(string \<times> jsval) list \<Rightarrow> jsval \<Rightarrow> (string \<times> jsval) list" where
  "obj_spread acc v = fold (\<lambda>(k, x). AList.update k x) (own_props v) acc"

text \<open>A key with a code unit that is no decimal digit is no index.\<close>

definition named_key :: "string \<Rightarrow> bool" where
  "named_key k = list_ex (\<lambda>c. c \<notin> set ''0123456789'') k"

section \<open>Strings\<close>

text \<open>The white space that \<open>trim\<close> and the white-space class of a regular expression remove, among the code units below 256.\<close>

definition ws_chars :: "char list" where
  "ws_chars = [CHR 0x09, CHR 0x0A, CHR 0x0B, CHR 0x0C, CHR 0x0D, CHR '' '', CHR 0xA0]"

definition is_ws :: "char \<Rightarrow> bool" where
  "is_ws c = (c \<in> set ws_chars)"

definition trim :: "string \<Rightarrow> string" where
  "trim s = rev (dropWhile is_ws (rev (dropWhile is_ws s)))"

definition is_upper :: "char \<Rightarrow> bool" where
  "is_upper c =
     (let n = (of_char c :: nat)
      in (65 \<le> n \<and> n \<le> 90) \<or> (192 \<le> n \<and> n \<le> 222 \<and> n \<noteq> 215))"

text \<open>An upper-case letter and its lower-case one differ in bit 5.\<close>

definition lower_char :: "char \<Rightarrow> char" where
  "lower_char c =
     (if is_upper c
      then (case c of Char b0 b1 b2 b3 b4 b5 b6 b7 \<Rightarrow> Char b0 b1 b2 b3 b4 True b6 b7)
      else c)"

definition toLowerCase :: "string \<Rightarrow> string" where
  "toLowerCase s = map lower_char s"

definition startsWith :: "string \<Rightarrow> string \<Rightarrow> bool" where
  "startsWith s p = prefix p s"

section \<open>The Gemini client (server/gemini.ts)\<close>

text \<open>
  What does not belong to the repository is a parameter. The platform is fixed while the
  process runs: the environment variable \<open>GEMINI_API_KEY\<close>, \<open>JSON.parse\<close> (\<open>None\<close> when it
  throws), the SHA-256 hex digest and the text extraction of \<open>./document-parser\<close>. A moment
  is what one request meets: the outcome of each POST to the Gemini endpoint, by the body
  sent, and the two readings of the clock.
\<close>

datatype fetch_outcome =
    FetchRejects
  | FetchResponse nat "jsval option"

datatype extract_outcome =
    Extracted string
  | ExtractError string
  | ExtractThrown

record platform =
  env_GEMINI_API_KEY :: "string option"
  JSON_parse :: "string \<Rightarrow> jsval option"
  sha256_hex :: "string \<Rightarrow> string"
  extractTextFromDocument :: "nat list \<Rightarrow> string \<Rightarrow> extract_outcome"

record moment =
  fetch :: "jsval \<Rightarrow> fetch_outcome"
  Date_now :: real
  Date_toISOString :: string

text \<open>
  \<open>FetchRejects\<close>: \<open>fetch\<close> throws (a network error, or the abort after
  \<open>GEMINI_TIMEOUT_MS\<close>). \<open>FetchResponse status json\<close>: a response with that status, whose
  \<open>json()\<close> gives \<open>json\<close> (\<open>None\<close> when it throws).
\<close>

definition response_ok :: "nat \<Rightarrow> bool" where
  "response_ok st = (200 \<le> st \<and> st \<le> 299)"

definition placeholder_key :: string where
  "placeholder_key = ''your-gemini-api-key-here''"

definition GEMINI_API_KEY :: "platform \<Rightarrow> string" where
  "GEMINI_API_KEY p =
     (case env_GEMINI_API_KEY p of
        None \<Rightarrow> placeholder_key
      | Some k \<Rightarrow> if k \<noteq> [] then k else placeholder_key)"

text \<open>\<open>!GEMINI_API_KEY || GEMINI_API_KEY === "your-gemini-api-key-here"\<close>\<close>

definition key_not_configured :: "platform \<Rightarrow> bool" where
  "key_not_configured p = (GEMINI_API_KEY p = [] \<or> GEMINI_API_KEY p = placeholder_key)"

definition contents_of :: "string \<Rightarrow> jsval" where
  "contents_of prompt = JArr [JObj [(''parts'', JArr [JObj [(''text'', JStr prompt)]])]]"

definition classify_prompt :: "string \<Rightarrow> string" where
  "classify_prompt text =
     ''Is the following document a resume or CV? Reply only with '' @ [CHR 0x27] @ ''yes''
       @ [CHR 0x27] @ '' or '' @ [CHR 0x27] @ ''no'' @ [CHR 0x27] @ ''.''
       @ [CHR 0x0A, CHR 0x0A] @ ''Document:'' @ [CHR 0x0A] @ text"

definition classify_body :: "string \<Rightarrow> jsval" where
  "classify_body text = JObj [(''contents'', contents_of (classify_prompt text))]"

text \<open>\<open>data?.candidates?.[0]?.content?.parts?.[0]?.text\<close>\<close>

definition candidate_text :: "jsval \<Rightarrow> jsval" where
  "candidate_text data =
     opt_member
       (opt_first (opt_member (opt_member (opt_first (opt_member data ''candidates''))
          ''content'') ''parts''))
       ''text''"

text \<open>
  The body of the last \<open>try\<close> of \<open>isResumeDocument\<close>, once \<open>response.json()\<close> has given
  \<open>data\<close>: \<open>trim\<close> is a method of strings only, so a truthy text that is no string throws.
\<close>

definition read_answer :: "jsval \<Rightarrow> js_error + bool" where
  "read_answer data =
     (case or_else (candidate_text data) (JStr []) of
        JStr s \<Rightarrow> Inr (startsWith (toLowerCase (trim s)) ''yes'')
      | _ \<Rightarrow> Inl TypeError)"

text \<open>
  \<open>isResumeDocument\<close> returns what the function returns or throws, and the bodies it has
  posted to Gemini.
\<close>

definition isResumeDocument ::
  "platform \<Rightarrow> moment \<Rightarrow> string \<Rightarrow> (js_error + bool) \<times> jsval list" where
  "isResumeDocument p m text =
     (if key_not_configured p then (Inr True, [])
      else
        (case fetch m (classify_body text) of
           FetchRejects \<Rightarrow> (Inr True, [classify_body text])
         | FetchResponse st json \<Rightarrow>
             if \<not> response_ok st then (Inr True, [classify_body text])
             else
               (case json of
                  None \<Rightarrow> (Inr True, [classify_body text])
                | Some data \<Rightarrow>
                    (case read_answer data of
                       Inl e \<Rightarrow> (Inr True, [classify_body text])
                     | Inr b \<Rightarrow> (Inr b, [classify_body text])))))"

text \<open>\<open>fillSectionDefaults\<close>: the spread of \<open>result\<close>, then the five feedback fields and
  the suggestions, each with its default. \<open>result.feedback\<close> throws when \<open>result\<close> is
  \<open>null\<close>.\<close>

definition no_feedback :: jsval where
  "no_feedback = JStr ''No feedback provided.''"

definition no_suggestions :: jsval where
  "no_suggestions = JArr [JStr ''No suggestions provided.'']"

definition suggestions_or_default :: "jsval \<Rightarrow> jsval" where
  "suggestions_or_default v =
     (case v of JArr xs \<Rightarrow> if length xs > 0 then JArr xs else no_suggestions
      | _ \<Rightarrow> no_suggestions)"

definition fillSectionDefaults :: "jsval \<Rightarrow> js_error + jsval" where
  "fillSectionDefaults result =
     (case get_member result ''feedback'' of
        Inl e \<Rightarrow> Inl e
      | Inr fb \<Rightarrow>
          Inr (JObj
            (AList.update ''improvementSuggestions''
               (suggestions_or_default (js_get result ''improvementSuggestions''))
               (AList.update ''feedback''
                  (JObj
                    [(''keywords'', or_else (opt_member fb ''keywords'') no_feedback),
                     (''experience'', or_else (opt_member fb ''experience'') no_feedback),
                     (''skills'', or_else (opt_member fb ''skills'') no_feedback),
                     (''education'', or_else (opt_member fb ''education'') no_feedback),
                     (''formatting'', or_else (opt_member fb ''formatting'') no_feedback)])
                  (obj_spread [] result)))))"

definition unlines :: "string list \<Rightarrow> string" where
  "unlines ls = concat (map (\<lambda>l. l @ [CHR 0x0A]) ls)"

definition SYSTEM_PROMPT :: string where
  "SYSTEM_PROMPT = unlines
     [''You are an expert ATS (Applicant Tracking System) resume analyzer. Score the resume realistically, not overly strict. Most good resumes should score between 60 and 85. Be encouraging and provide actionable feedback for each section.'',
      [],
      ''Strictly evaluate the following resume as a real ATS would, using these criteria:'',
      ''- Keyword & phrase match for the target job'',
      ''- Work experience relevance and quantification'',
      ''- Skills match (technical and soft)'',
      ''- Education completeness'',
      ''- Formatting & structure (ATS-friendly, no images, simple layout, clear sections)'',
      [],
      ''For each category, give a score out of 100.'',
      ''For each section, provide 1-2 sentences of feedback.'',
      ''Return your response as a JSON object with these keys:'',
      ''- overallScore'',
      ''- keywordsScore'',
      ''- experienceScore'',
      ''- skillsScore'',
      ''- educationScore'',
      ''- formattingScore'',
      ''- feedback (object with keys: keywords, experience, skills, education, formatting)'',
      ''- improvementSuggestions (array of 3-5 actionable suggestions)'']"

definition analyze_prompt :: "string \<Rightarrow> string" where
  "analyze_prompt text = SYSTEM_PROMPT @ [CHR 0x0A, CHR 0x0A] @ ''Resume:'' @ [CHR 0x0A] @ text"

definition analyze_body :: "string \<Rightarrow> jsval" where
  "analyze_body text =
     JObj [(''contents'', contents_of (analyze_prompt text)),
           (''generationConfig'',
              JObj [(''temperature'', JNum 0), (''topP'', JNum 1), (''topK'', JNum 1)])]"

text \<open>The answer without its code fence: a leading fence with \<open>json\<close> in any case and
  the white space after it, then a leading bare fence, then a fence at the very end;
  trimmed before and after.\<close>

definition fence :: string where
  "fence = [CHR 0x60, CHR 0x60, CHR 0x60]"

definition endsWith :: "string \<Rightarrow> string \<Rightarrow> bool" where
  "endsWith s p = prefix (rev p) (rev s)"

definition strip_code_fence :: "string \<Rightarrow> string" where
  "strip_code_fence s =
     (let s0 = trim s;
          s1 = (if toLowerCase (take 7 s0) = fence @ ''json''
                then dropWhile is_ws (drop 7 s0) else s0);
          s2 = (if startsWith s1 fence then drop 3 s1 else s1);
          s3 = (if endsWith s2 fence then take (length s2 - 3) s2 else s2)
      in trim s3)"

text \<open>The errors \<open>analyzeResumeWithGemini\<close> throws, by their messages:
  \<open>EmptyText\<close> "Resume text is empty. Cannot analyze an empty document.",
  \<open>ConnectFailed\<close> "Failed to connect to analysis service. Please try again later.",
  \<open>ServiceError st\<close> "Analysis service error: st. Please try again later.",
  \<open>ResponseParseFailed\<close> "Failed to parse analysis response. Please try again later.",
  \<open>ResultsParseFailed\<close> "Failed to parse analysis results. Please try again later.",
  and \<open>RuntimeTypeError\<close>, the TypeError of \<open>resultText.trim\<close> on a text that is no
  string and of \<open>result.feedback\<close> on \<open>null\<close>.\<close>

datatype analysis_error =
    EmptyText
  | ConnectFailed
  | ServiceError nat
  | ResponseParseFailed
  | ResultsParseFailed
  | RuntimeTypeError

definition scored_result :: "real \<Rightarrow> jsval \<Rightarrow> jsval \<Rightarrow> (string \<times> jsval) list" where
  "scored_result n fb sugg =
     [(''overallScore'', JNum n),
      (''keywordsScore'', JNum n),
      (''experienceScore'', JNum n),
      (''skillsScore'', JNum n),
      (''educationScore'', JNum n),
      (''formattingScore'', JNum n),
      (''feedback'', fb),
      (''improvementSuggestions'', sugg)]"

definition not_configured_text :: jsval where
  "not_configured_text =
     JStr ''API not configured. Please configure Gemini API key for detailed analysis.''"

definition not_configured_result :: jsval where
  "not_configured_result =
     JObj (scored_result 75
       (JObj
         [(''keywords'', not_configured_text),
          (''experience'', not_configured_text),
          (''skills'', not_configured_text),
          (''education'', not_configured_text),
          (''formatting'', not_configured_text)])
       (JArr
         [JStr ''Configure your Gemini API key for detailed resume analysis.'',
          JStr ''Ensure your resume is in PDF or DOCX format.'',
          JStr ''Make sure your resume contains clear sections for experience, skills, and education.'']))"

text \<open>The steps after \<open>response.json()\<close> has given \<open>data\<close>.\<close>

definition read_analysis :: "platform \<Rightarrow> jsval \<Rightarrow> analysis_error + jsval" where
  "read_analysis p data =
     (case or_else (candidate_text data) (JStr []) of
        JStr s \<Rightarrow>
          (case JSON_parse p (strip_code_fence s) of
             None \<Rightarrow> Inl ResultsParseFailed
           | Some result \<Rightarrow>
               (case fillSectionDefaults result of
                  Inl e \<Rightarrow> Inl RuntimeTypeError
                | Inr r \<Rightarrow> Inr r))
      | _ \<Rightarrow> Inl RuntimeTypeError)"

definition analyzeResumeWithGemini ::
  "platform \<Rightarrow> moment \<Rightarrow> string \<Rightarrow> (analysis_error + jsval) \<times> jsval list" where
  "analyzeResumeWithGemini p m text =
     (if text = [] \<or> trim text = [] then (Inl EmptyText, [])
      else if key_not_configured p then (Inr not_configured_result, [])
      else
        (case fetch m (analyze_body text) of
           FetchRejects \<Rightarrow> (Inl ConnectFailed, [analyze_body text])
         | FetchResponse st json \<Rightarrow>
             if \<not> response_ok st then (Inl (ServiceError st), [analyze_body text])
             else
               (case json of
                  None \<Rightarrow> (Inl ResponseParseFailed, [analyze_body text])
                | Some data \<Rightarrow> (read_analysis p data, [analyze_body text]))))"

section \<open>The routes\<close>

text \<open>\<open>POST /api/resume/analyze\<close>, the same in the Express route and in the serverless
  handler (api/resume/analyze.ts). The upload is \<open>req.file\<close>; the cache is the module's
  \<open>resumeCache\<close>, passed in and returned.\<close>

record upload =
  originalname :: string
  mimetype :: string
  buffer :: "nat list"

record response =
  status :: nat
  body :: jsval

type_synonym cache = "string \<rightharpoonup> jsval"

definition message :: "string \<Rightarrow> jsval" where
  "message s = JObj [(''message'', JStr s)]"

definition provenance :: "moment \<Rightarrow> upload \<Rightarrow> (string \<times> jsval) list" where
  "provenance m file =
     [(''id'', JNum (Date_now m)),
      (''filename'', JStr (originalname file)),
      (''fileType'', JStr (mimetype file)),
      (''createdAt'', JStr (Date_toISOString m))]"

definition not_resume_text :: jsval where
  "not_resume_text =
     JStr ''This document does not appear to be a resume. Please upload a valid resume (CV) for analysis.''"

definition notResumeResult :: "moment \<Rightarrow> upload \<Rightarrow> jsval" where
  "notResumeResult m file =
     JObj (provenance m file @
       scored_result 0
         (JObj
           [(''keywords'', not_resume_text),
            (''experience'', not_resume_text),
            (''skills'', not_resume_text),
            (''education'', not_resume_text),
            (''formatting'', not_resume_text)])
         (JArr [JStr ''Please upload a resume or CV document for accurate analysis.'']))"

definition technical_fallback :: jsval where
  "technical_fallback =
     JObj (scored_result 70
       (JObj
         [(''keywords'', JStr ''Unable to analyze keywords due to technical issues. Please try again later.''),
          (''experience'', JStr ''Unable to analyze experience due to technical issues. Please try again later.''),
          (''skills'', JStr ''Unable to analyze skills due to technical issues. Please try again later.''),
          (''education'', JStr ''Unable to analyze education due to technical issues. Please try again later.''),
          (''formatting'', JStr ''Unable to analyze formatting due to technical issues. Please try again later.'')])
       (JArr
         [JStr ''Please try uploading your resume again in a few moments.'',
          JStr ''Ensure your resume is in PDF or DOCX format.'',
          JStr ''Check that your resume contains clear sections for experience, skills, and education.'']))"

text \<open>\<open>{ id, filename, fileType, createdAt, ...analysisResult }\<close>\<close>

definition with_provenance :: "moment \<Rightarrow> upload \<Rightarrow> jsval \<Rightarrow> jsval" where
  "with_provenance m file analysisResult = JObj (obj_spread (provenance m file) analysisResult)"

text \<open>The route after a cache miss: the classifier inside its \<open>try\<close>, the not-a-resume
  result, the analyzer inside its \<open>try\<close>, whose \<open>catch\<close> takes every error.\<close>

definition on_miss ::
  "platform \<Rightarrow> moment \<Rightarrow> upload \<Rightarrow> string \<Rightarrow> cache \<Rightarrow> response \<times> cache \<times> jsval list" where
  "on_miss p m file text c =
     (let hash = sha256_hex p text;
          (checked, calls1) = isResumeDocument p m text;
          isResume = (case checked of Inr b \<Rightarrow> b | Inl e \<Rightarrow> True)
      in if \<not> isResume
         then (\<lparr>status = 200, body = notResumeResult m file\<rparr>,
               c(hash \<mapsto> notResumeResult m file), calls1)
         else
           (let (analyzed, calls2) = analyzeResumeWithGemini p m text;
                analysisResult = (case analyzed of Inr r \<Rightarrow> r | Inl e \<Rightarrow> technical_fallback);
                result = with_provenance m file analysisResult
            in (\<lparr>status = 200, body = result\<rparr>, c(hash \<mapsto> result), calls1 @ calls2)))"

text \<open>\<open>process\<close>: the response, the cache afterwards and the bodies posted to Gemini.\<close>

definition process ::
  "platform \<Rightarrow> moment \<Rightarrow> upload option \<Rightarrow> cache \<Rightarrow> response \<times> cache \<times> jsval list" where
  "process p m req c =
     (case req of
        None \<Rightarrow> (\<lparr>status = 400, body = message ''No file uploaded''\<rparr>, c, [])
      | Some file \<Rightarrow>
          (case extractTextFromDocument p (buffer file) (mimetype file) of
             ExtractError msg \<Rightarrow> (\<lparr>status = 400, body = message msg\<rparr>, c, [])
           | ExtractThrown \<Rightarrow>
               (\<lparr>status = 400, body = message ''Failed to extract text from document''\<rparr>, c, [])
           | Extracted text \<Rightarrow>
               (case c (sha256_hex p text) of
                  None \<Rightarrow> on_miss p m file text c
                | Some v \<Rightarrow>
                    if truthy v then (\<lparr>status = 200, body = v\<rparr>, c, [])
                    else on_miss p m file text c)))"

text \<open>\<open>GET /api/resume/analysis/:id\<close>. \<open>parseInt\<close> skips leading white space, reads a
  sign, takes \<open>0x\<close> or \<open>0X\<close> for radix 16, and reads digits up to the first code unit that
  is none; it gives \<open>NaN\<close> (\<open>None\<close>) when it has read no digit. Its result is a Number, a
  double. An integer of magnitude at most \<open>2^53\<close> is a double itself: \<open>Exact n\<close>. Beyond
  that the engine rounds, to an infinity in the end, and past 20 digits as it sees fit:
  \<open>Beyond n\<close> is the Number the engine makes of the integer \<open>n\<close>, which the model does not
  compute; \<open>engine\<close>, a parameter, gives it as a value. The lookup is
  \<open>storage.getResumeAnalysis\<close> of \<open>./storage\<close>, a parameter: it throws, or returns a value
  (\<open>undefined\<close> for no row).\<close>

definition digit_table :: "(char \<times> nat) list" where
  "digit_table =
     zip ''0123456789abcdefABCDEF''
       [0, 1, 2, 3, 4, 5, 6, 7, 8, 9, 10, 11, 12, 13, 14, 15, 10, 11, 12, 13, 14, 15]"

definition digit_value :: "char \<Rightarrow> nat" where
  "digit_value c = (case map_of digit_table c of Some d \<Rightarrow> d | None \<Rightarrow> 0)"

definition is_radix_digit :: "nat \<Rightarrow> char \<Rightarrow> bool" where
  "is_radix_digit r c = (case map_of digit_table c of Some d \<Rightarrow> d < r | None \<Rightarrow> False)"

definition digits_to_nat :: "nat \<Rightarrow> string \<Rightarrow> nat" where
  "digits_to_nat r ds = foldl (\<lambda>acc c. acc * r + digit_value c) 0 ds"

datatype id_number =
    Exact int
  | Beyond int

definition parseInt :: "string \<Rightarrow> id_number option" where
  "parseInt inputString =
     (let s = dropWhile is_ws inputString;
          sign = (if take 1 s = ''-'' then - 1 else 1);
          s1 = (if take 1 s = ''-'' \<or> take 1 s = ''+'' then drop 1 s else s);
          hex = (take 2 s1 = ''0x'' \<or> take 2 s1 = ''0X'');
          r = (if hex then 16 else 10);
          s2 = (if hex then drop 2 s1 else s1);
          z = takeWhile (is_radix_digit r) s2
      in if z = [] then None
         else if digits_to_nat r z \<le> 9007199254740992
         then Some (Exact (sign * int (digits_to_nat r z)))
         else Some (Beyond (sign * int (digits_to_nat r z))))"

datatype lookup_outcome =
    LookupThrows
  | LookupReturns jsval

fun id_value :: "(int \<Rightarrow> jsval) \<Rightarrow> id_number \<Rightarrow> jsval" where
  "id_value engine (Exact n) = JNum (of_int n)"
| "id_value engine (Beyond n) = engine n"

definition demo_analysis :: "moment \<Rightarrow> jsval \<Rightarrow> jsval" where
  "demo_analysis m n =
     JObj
       [(''id'', n),
        (''filename'', JStr ''sample-resume.pdf''),
        (''fileType'', JStr ''application/pdf''),
        (''createdAt'', JStr (Date_toISOString m)),
        (''overallScore'', JNum 78),
        (''keywordsScore'', JNum 75),
        (''experienceScore'', JNum 82),
        (''skillsScore'', JNum 80),
        (''educationScore'', JNum 85),
        (''formattingScore'', JNum 70),
        (''feedback'', JObj
          [(''keywords'', JStr ''Your resume contains good keywords, but could benefit from more industry-specific terminology.''),
           (''experience'', JStr ''Your work experience is well presented with quantified achievements.''),
           (''skills'', JStr ''Your skills section is comprehensive and well organized.''),
           (''education'', JStr ''Education details are clearly presented with relevant highlights.''),
           (''formatting'', JStr ''The resume has a good structure but could be more ATS-friendly.'')]),
        (''improvementSuggestions'', JArr
          [JStr ''Add more industry-specific keywords throughout your resume.'',
           JStr ''Quantify more achievements with specific metrics to demonstrate impact.'',
           JStr ''Ensure consistent formatting of dates and headers for better ATS readability.'',
           JStr ''Tailor your resume for each application by highlighting relevant experiences.'',
           JStr ''Use standard section headers that are easily recognized by ATS systems.''])]"

definition get_analysis ::
  "(int \<Rightarrow> jsval) \<Rightarrow> (id_number \<Rightarrow> lookup_outcome) \<Rightarrow> moment \<Rightarrow> string \<Rightarrow> response" where
  "get_analysis engine getResumeAnalysis m id_param =
     (case parseInt id_param of
        None \<Rightarrow> \<lparr>status = 400, body = message ''Invalid ID format''\<rparr>
      | Some n \<Rightarrow>
          (case getResumeAnalysis n of
             LookupReturns analysis \<Rightarrow>
               if \<not> truthy analysis
               then \<lparr>status = 404, body = message ''Analysis not found''\<rparr>
               else \<lparr>status = 200, body = analysis\<rparr>
           | LookupThrows \<Rightarrow> \<lparr>status = 200, body = demo_analysis m (id_value engine n)\<rparr>))"

section \<open>The shape of a result\<close>

text \<open>The fields of \<open>ResumeAnalysisResult\<close>, and what it is for a value to have them.\<close>

definition score_keys :: "string list" where
  "score_keys =
     [''overallScore'', ''keywordsScore'', ''experienceScore'', ''skillsScore'',
      ''educationScore'', ''formattingScore'']"

definition feedback_keys :: "string list" where
  "feedback_keys = [''keywords'', ''experience'', ''skills'', ''education'', ''formatting'']"


text \<open>\<open>v.feedback?.k\<close>\<close>

definition feedback_field :: "jsval \<Rightarrow> string \<Rightarrow> jsval" where
  "feedback_field v k = opt_member (js_get v ''feedback'') k"



fun is_nonempty_array :: "jsval \<Rightarrow> bool" where
  "is_nonempty_array (JArr xs) = (xs \<noteq> [])"
| "is_nonempty_array v = False"





definition result_keys :: "string list" where
  "result_keys = ''feedback'' # ''improvementSuggestions'' # score_keys"




text \<open>An id that is a numeral: one decimal digit or more and nothing else.\<close>

definition numeric_id :: "string \<Rightarrow> bool" where
  "numeric_id s = (s \<noteq> [] \<and> list_all (\<lambda>c. c \<in> set ''0123456789'') s)"

section \<open>Sample inputs\<close>

text \<open>Three extracted texts, with their SHA-256 digests as \<open>sha256sum\<close> prints them; the
  uploads they come from; the two answers of \<open>JSON.parse\<close> that the samples need; a
  Gemini that answers the classifier with one text and the analyzer with another.\<close>

definition resume_text :: string where
  "resume_text = ''Jane Doe - Software Engineer''"

definition blank_text :: string where
  "blank_text = ''   ''"

definition recipe_text :: string where
  "recipe_text = ''Pancake recipe''"

definition sample_digest :: "string \<Rightarrow> string" where
  "sample_digest t =
     (if t = resume_text then ''eab7883c6e6ef98e3b09fa7601a6486bde172218aa3e7821beb233ab100da7e8''
      else if t = blank_text then ''0aad7da77d2ed59c396c99a74e49f3a4524dcdbcb5163251b1433d640247aeb4''
      else if t = recipe_text then ''21af720482d84aad5767ccb42a11a407dbdabb6f1aac10de25d57db31efd4498''
      else [])"

text \<open>An answer of the model with a number for a feedback field and no score, as the
  JSON text \<open>{"feedback":{"keywords":5}}\<close> and as the object \<open>JSON.parse\<close> makes of it.\<close>

definition odd_answer :: string where
  "odd_answer =
     ''{'' @ [CHR 0x22] @ ''feedback'' @ [CHR 0x22] @ '':{'' @ [CHR 0x22] @ ''keywords''
       @ [CHR 0x22] @ '':5}}''"

definition odd_result :: jsval where
  "odd_result = JObj [(''feedback'', JObj [(''keywords'', JNum 5)])]"

definition sample_parse :: "string \<Rightarrow> jsval option" where
  "sample_parse t =
     (if t = ''{}'' then Some (JObj [])
      else if t = ''null'' then Some JNull
      else if t = odd_answer then Some odd_result
      else None)"

definition sample_extract :: "nat list \<Rightarrow> string \<Rightarrow> extract_outcome" where
  "sample_extract bytes mime =
     (if bytes = [1] \<or> bytes = [4] then Extracted resume_text
      else if bytes = [2] then Extracted blank_text
      else if bytes = [3] then Extracted recipe_text
      else ExtractError ''Failed to parse document'')"

definition pdf_mime :: string where
  "pdf_mime = ''application/pdf''"

definition docx_mime :: string where
  "docx_mime = ''application/vnd.openxmlformats-officedocument.wordprocessingml.document''"

definition cv_pdf :: upload where
  "cv_pdf = \<lparr>originalname = ''cv.pdf'', mimetype = pdf_mime, buffer = [1]\<rparr>"

definition cv_docx :: upload where
  "cv_docx = \<lparr>originalname = ''jane.docx'', mimetype = docx_mime, buffer = [4]\<rparr>"

definition blank_pdf :: upload where
  "blank_pdf = \<lparr>originalname = ''scan.pdf'', mimetype = pdf_mime, buffer = [2]\<rparr>"

definition recipe_pdf :: upload where
  "recipe_pdf = \<lparr>originalname = ''pancakes.pdf'', mimetype = pdf_mime, buffer = [3]\<rparr>"

definition keyed :: platform where
  "keyed = \<lparr>env_GEMINI_API_KEY = Some ''sample-key'', JSON_parse = sample_parse,
            sha256_hex = sample_digest, extractTextFromDocument = sample_extract\<rparr>"

definition keyless :: platform where
  "keyless = \<lparr>env_GEMINI_API_KEY = None, JSON_parse = sample_parse,
              sha256_hex = sample_digest, extractTextFromDocument = sample_extract\<rparr>"

definition gemini_reply :: "string \<Rightarrow> jsval" where
  "gemini_reply t =
     JObj [(''candidates'',
       JArr [JObj [(''content'', JObj [(''parts'', JArr [JObj [(''text'', JStr t)]])])]])]"

definition answering :: "string \<Rightarrow> string \<Rightarrow> moment" where
  "answering verdict analysis =
     \<lparr>fetch = (\<lambda>b. if truthy (js_get b ''generationConfig'')
                     then FetchResponse 200 (Some (gemini_reply analysis))
                     else FetchResponse 200 (Some (gemini_reply verdict))),
      Date_now = 1730000000000, Date_toISOString = ''2024-10-27T03:33:20.000Z''\<rparr>"

definition failing :: "string \<Rightarrow> moment" where
  "failing verdict =
     \<lparr>fetch = (\<lambda>b. if truthy (js_get b ''generationConfig'')
                     then FetchResponse 503 None
                     else FetchResponse 200 (Some (gemini_reply verdict))),
      Date_now = 1730000000000, Date_toISOString = ''2024-10-27T03:33:20.000Z''\<rparr>"

text \<open>A Gemini that answers 200 with no candidate, as it does for a prompt it blocks.\<close>

definition blocked_reply :: jsval where
  "blocked_reply = JObj [(''promptFeedback'', JObj [(''blockReason'', JStr ''SAFETY'')])]"

definition blocking :: moment where
  "blocking =
     \<lparr>fetch = (\<lambda>b. FetchResponse 200 (Some blocked_reply)),
      Date_now = 1730000000000, Date_toISOString = ''2024-10-27T03:33:20.000Z''\<rparr>"

definition later :: moment where
  "later = \<lparr>fetch = (\<lambda>b. FetchRejects),
            Date_now = 1730000600000, Date_toISOString = ''2024-10-27T03:43:20.000Z''\<rparr>"

text \<open>An answer of the model with scores out of range, an empty feedback field, three
  feedback fields missing and no suggestion.\<close>

definition partial_answer :: jsval where
  "partial_answer =
     JObj [(''overallScore'', JNum 150),
           (''keywordsScore'', JNum (- 5)),
           (''feedback'', JObj [(''keywords'', JStr ''Good keywords.''), (''skills'', JStr [])]),
           (''improvementSuggestions'', JArr [])]"

text \<open>A store without rows and one with a row under the id 42.\<close>

definition no_rows :: "id_number \<Rightarrow> lookup_outcome" where
  "no_rows n = LookupReturns JUndefined"

definition stored_row :: jsval where
  "stored_row = JObj [(''id'', JNum 42), (''filename'', JStr ''cv.pdf''), (''overallScore'', JNum 81)]"

definition one_row :: "id_number \<Rightarrow> lookup_outcome" where
  "one_row n = (if n = Exact 42 then LookupReturns stored_row else LookupReturns JUndefined)"

text \<open>What \<open>fillSectionDefaults\<close> makes of the empty object.\<close>

definition bare_result :: jsval where
  "bare_result =
     JObj [(''feedback'', JObj [(''keywords'', no_feedback), (''experience'', no_feedback),
        (''skills'', no_feedback), (''education'', no_feedback), (''formatting'', no_feedback)]),
        (''improvementSuggestions'', no_suggestions)]"

section \<open>Objects: lookups after a spread\<close>

lemma map_of_fold_update:
  "map_of (fold (\<lambda>(k, x). AList.update k x) ps acc) = map_of acc ++ map_of (rev ps)"
proof (induction ps arbitrary: acc)
  case Nil
  show ?case by simp
next
  case (Cons a ps)
  obtain k x where a: "a = (k, x)" by (cases a)
  show ?case
    by (simp add: a Cons.IH update_conv' map_add_def fun_eq_iff split: option.split)
qed

lemma map_of_rev_distinct:
  "distinct (map fst ps) \<Longrightarrow> map_of (rev ps) = map_of ps"
  by (subst map_of_inject_set) (simp_all add: rev_map[symmetric])

lemma map_of_obj_spread_obj:
  "map_of (obj_spread acc (JObj kvs)) k =
     (case map_of kvs k of Some x \<Rightarrow> Some x | None \<Rightarrow> map_of acc k)"
  by (simp add: obj_spread_def map_of_fold_update map_of_rev_distinct map_of_clearjunk
      map_add_def)

lemma nat_to_string_digits: "set (nat_to_string n) \<subseteq> set ''0123456789''"
proof (induction n rule: nat_to_string.induct)
  case (1 n)
  have d: "\<And>i. i < 10 \<Longrightarrow> ''0123456789'' ! i \<in> set ''0123456789''"
    by (rule nth_mem) simp
  show ?case
  proof (cases "n < 10")
    case True
    then show ?thesis using d[of n] by (subst nat_to_string.simps) simp
  next
    case False
    have "n mod 10 < 10" by simp
    with False 1 d[of "n mod 10"] show ?thesis
      by (subst nat_to_string.simps) simp
  qed
qed

lemma named_key_not_index: "named_key k \<Longrightarrow> k \<noteq> nat_to_string n"
  using nat_to_string_digits[of n] by (auto simp: named_key_def list_ex_iff)

lemma named_key_zip:
  "named_key k \<Longrightarrow> map_of (rev (zip (map nat_to_string ns) vs)) k = None"
proof -
  assume nk: "named_key k"
  have "k \<notin> fst ` set (rev (zip (map nat_to_string ns) vs))"
  proof
    assume "k \<in> fst ` set (rev (zip (map nat_to_string ns) vs))"
    then obtain v where "(k, v) \<in> set (zip (map nat_to_string ns) vs)" by auto
    then have "k \<in> set (map nat_to_string ns)" by (rule set_zip_leftD)
    with nk named_key_not_index show False by auto
  qed
  then show ?thesis by (simp add: map_of_eq_None_iff)
qed

lemma map_of_obj_spread_named:
  "named_key k \<Longrightarrow>
   map_of (obj_spread acc v) k =
     (case v of
        JObj kvs \<Rightarrow> (case map_of kvs k of Some x \<Rightarrow> Some x | None \<Rightarrow> map_of acc k)
      | _ \<Rightarrow> map_of acc k)"
  by (cases v)
     (simp_all add: map_of_obj_spread_obj, simp_all add: obj_spread_def map_of_fold_update
       map_add_def named_key_zip)

lemma score_key_named:
  "k \<in> set score_keys \<Longrightarrow> named_key k \<and> k \<noteq> ''feedback'' \<and> k \<noteq> ''improvementSuggestions''"
  by (auto simp: score_keys_def) (simp_all add: named_key_def)

lemma js_get_obj_spread_named:
  "named_key k \<Longrightarrow> map_of acc k = None \<Longrightarrow> js_get (JObj (obj_spread acc v)) k = js_get v k"
  by (cases v) (simp_all add: map_of_obj_spread_named split: option.split)


lemma fillSectionDefaults_Inr:
  "fillSectionDefaults result = Inr r \<Longrightarrow>
   \<not> nullish result \<and>
   r = JObj
        (AList.update ''improvementSuggestions''
           (suggestions_or_default (js_get result ''improvementSuggestions''))
           (AList.update ''feedback''
              (JObj
                [(''keywords'', or_else (feedback_field result ''keywords'') no_feedback),
                 (''experience'', or_else (feedback_field result ''experience'') no_feedback),
                 (''skills'', or_else (feedback_field result ''skills'') no_feedback),
                 (''education'', or_else (feedback_field result ''education'') no_feedback),
                 (''formatting'', or_else (feedback_field result ''formatting'') no_feedback)])
              (obj_spread [] result)))"
  by (cases "nullish result")
     (auto simp add: fillSectionDefaults_def get_member_def feedback_field_def)

lemma fillSectionDefaults_feedback:
  "fillSectionDefaults result = Inr r \<Longrightarrow>
   js_get r ''feedback'' =
     JObj [(''keywords'', or_else (feedback_field result ''keywords'') no_feedback),
           (''experience'', or_else (feedback_field result ''experience'') no_feedback),
           (''skills'', or_else (feedback_field result ''skills'') no_feedback),
           (''education'', or_else (feedback_field result ''education'') no_feedback),
           (''formatting'', or_else (feedback_field result ''formatting'') no_feedback)]"
  by (drule fillSectionDefaults_Inr) (simp add: update_conv')

lemma fillSectionDefaults_suggestions:
  "fillSectionDefaults result = Inr r \<Longrightarrow>
   js_get r ''improvementSuggestions'' =
     suggestions_or_default (js_get result ''improvementSuggestions'')"
  by (drule fillSectionDefaults_Inr) (simp add: update_conv')

lemma fillSectionDefaults_other:
  "fillSectionDefaults result = Inr r \<Longrightarrow> named_key k \<Longrightarrow> k \<noteq> ''feedback'' \<Longrightarrow>
   k \<noteq> ''improvementSuggestions'' \<Longrightarrow> js_get r k = js_get result k"
  using js_get_obj_spread_named[of k "[]" result]
  by (drule_tac fillSectionDefaults_Inr) (simp add: update_conv')

lemma fillSectionDefaults_total:
  "\<not> nullish result \<Longrightarrow> \<exists>kvs. fillSectionDefaults result = Inr (JObj kvs)"
  by (simp add: fillSectionDefaults_def get_member_def)

lemma or_else_no_feedback:
  "or_else v no_feedback = (if truthy v then v else JStr ''No feedback provided.'')"
  by (simp add: or_else_def no_feedback_def)

lemma suggestions_or_default_cases:
  "suggestions_or_default v =
     (if is_nonempty_array v then v else JArr [JStr ''No suggestions provided.''])"
  by (cases v) (simp_all add: suggestions_or_default_def no_suggestions_def)


lemma feedback_field_filled:
  assumes "fillSectionDefaults result = Inr r" and "k \<in> set feedback_keys"
  shows "feedback_field r k = or_else (feedback_field result k) no_feedback"
proof -
  have "feedback_field r k = opt_member (js_get r ''feedback'') k"
    by (simp add: feedback_field_def)
  also from assms(2) have "\<dots> = or_else (feedback_field result k) no_feedback"
    unfolding fillSectionDefaults_feedback [OF assms(1)]
    by (auto simp add: feedback_keys_def opt_member_def)
  finally show ?thesis .
qed

text \<open>
  C5, as amended. Normalization of a parsed upstream result (\<open>fillSectionDefaults\<close>).
  On \<open>null\<close> the function throws, since \<open>result.feedback\<close> does. For every other parsed
  result it returns a result in which each of the five feedback fields is the upstream
  field when that is truthy (a non-empty string) and "No feedback provided." when it is
  missing or empty; the suggestions are the upstream array when it is a non-empty array
  and ["No suggestions provided."] otherwise; and each of the six score fields is what
  the upstream result has under that key, whatever its value.
\<close>

theorem fillSectionDefaults_normalizes:
  "(nullish result \<longrightarrow> fillSectionDefaults result = Inl TypeError) \<and>
   (\<not> nullish result \<longrightarrow>
     (\<exists>r. fillSectionDefaults result = Inr r \<and>
       (\<forall>k \<in> set feedback_keys.
          (truthy (feedback_field result k) \<longrightarrow> feedback_field r k = feedback_field result k) \<and>
          (\<not> truthy (feedback_field result k) \<longrightarrow>
             feedback_field r k = JStr ''No feedback provided.'')) \<and>
       (is_nonempty_array (js_get result ''improvementSuggestions'') \<longrightarrow>
          js_get r ''improvementSuggestions'' = js_get result ''improvementSuggestions'') \<and>
       (\<not> is_nonempty_array (js_get result ''improvementSuggestions'') \<longrightarrow>
          js_get r ''improvementSuggestions'' = JArr [JStr ''No suggestions provided.'']) \<and>
       (\<forall>k \<in> set score_keys. js_get r k = js_get result k)))"
proof (cases "nullish result")
  case True
  then show ?thesis
    by (simp add: fillSectionDefaults_def get_member_def)
next
  case False
  then obtain kvs where r: "fillSectionDefaults result = Inr (JObj kvs)"
    using fillSectionDefaults_total by blast
  have fb: "\<forall>k \<in> set feedback_keys.
      (truthy (feedback_field result k) \<longrightarrow>
         feedback_field (JObj kvs) k = feedback_field result k) \<and>
      (\<not> truthy (feedback_field result k) \<longrightarrow>
         feedback_field (JObj kvs) k = JStr ''No feedback provided.'')"
    using feedback_field_filled [OF r] by (simp add: or_else_no_feedback)
  have sg: "(is_nonempty_array (js_get result ''improvementSuggestions'') \<longrightarrow>
        js_get (JObj kvs) ''improvementSuggestions'' = js_get result ''improvementSuggestions'') \<and>
     (\<not> is_nonempty_array (js_get result ''improvementSuggestions'') \<longrightarrow>
        js_get (JObj kvs) ''improvementSuggestions'' = JArr [JStr ''No suggestions provided.''])"
    unfolding fillSectionDefaults_suggestions [OF r]
    by (simp add: suggestions_or_default_cases)
  have sc: "\<forall>k \<in> set score_keys. js_get (JObj kvs) k = js_get result k"
    using fillSectionDefaults_other [OF r] score_key_named by blast
  from False r fb sg sc show ?thesis by blast
qed

theorem fillSectionDefaults_normalizes_witness:
  "\<not> nullish partial_answer \<and>
   (\<exists>r. fillSectionDefaults partial_answer = Inr r \<and>
      feedback_field r ''keywords'' = JStr ''Good keywords.'' \<and>
      feedback_field r ''skills'' = JStr ''No feedback provided.'' \<and>
      feedback_field r ''education'' = JStr ''No feedback provided.'' \<and>
      js_get r ''improvementSuggestions'' = JArr [JStr ''No suggestions provided.''] \<and>
      js_get r ''overallScore'' = JNum 150 \<and>
      js_get r ''keywordsScore'' = JNum (- 5) \<and>
      js_get r ''skillsScore'' = JUndefined)"
proof -
  have n: "\<not> nullish partial_answer"
    by (simp add: partial_answer_def)
  from fillSectionDefaults_normalizes [of partial_answer] n obtain r where
    r: "fillSectionDefaults partial_answer = Inr r" and
    fb: "\<forall>k \<in> set feedback_keys.
        (truthy (feedback_field partial_answer k) \<longrightarrow>
           feedback_field r k = feedback_field partial_answer k) \<and>
        (\<not> truthy (feedback_field partial_answer k) \<longrightarrow>
           feedback_field r k = JStr ''No feedback provided.'')" and
    sg: "\<not> is_nonempty_array (js_get partial_answer ''improvementSuggestions'') \<longrightarrow>
        js_get r ''improvementSuggestions'' = JArr [JStr ''No suggestions provided.'']" and
    sc: "\<forall>k \<in> set score_keys. js_get r k = js_get partial_answer k"
    by blast
  have f: "feedback_field partial_answer ''keywords'' = JStr ''Good keywords.''"
    "feedback_field partial_answer ''skills'' = JStr []"
    "feedback_field partial_answer ''education'' = JUndefined"
    by (simp_all add: feedback_field_def partial_answer_def opt_member_def)
  have s: "js_get partial_answer ''improvementSuggestions'' = JArr []"
    "js_get partial_answer ''overallScore'' = JNum 150"
    "js_get partial_answer ''keywordsScore'' = JNum (- 5)"
    "js_get partial_answer ''skillsScore'' = JUndefined"
    by (simp_all add: partial_answer_def)
  from fb f have "feedback_field r ''keywords'' = JStr ''Good keywords.''"
    "feedback_field r ''skills'' = JStr ''No feedback provided.''"
    "feedback_field r ''education'' = JStr ''No feedback provided.''"
    by (simp_all add: feedback_keys_def)
  moreover from sg s have "js_get r ''improvementSuggestions'' = JArr [JStr ''No suggestions provided.'']"
    by simp
  moreover from sc s have "js_get r ''overallScore'' = JNum 150"
    "js_get r ''keywordsScore'' = JNum (- 5)" "js_get r ''skillsScore'' = JUndefined"
    by (simp_all add: score_keys_def)
  ultimately show ?thesis using n r by simp
qed

text \<open>
  The claim C5 as stated fails for the parsed result \<open>null\<close>, which \<open>JSON.parse\<close> gives
  for the answer "null": no field gets its default, the function throws.
\<close>

theorem null_result_counterexample:
  "JSON_parse keyed ''null'' = Some JNull \<and> fillSectionDefaults JNull = Inl TypeError"
  by (simp add: keyed_def sample_parse_def fillSectionDefaults_def get_member_def)

section \<open>The classifier\<close>

lemmas string_defs = trim_def is_ws_def ws_chars_def toLowerCase_def lower_char_def
  is_upper_def startsWith_def

lemmas key_defs = key_not_configured_def GEMINI_API_KEY_def placeholder_key_def

lemma candidate_text_reply: "candidate_text (gemini_reply t) = JStr t"
  by (simp add: candidate_text_def gemini_reply_def opt_member_def)

lemma keyed_configured: "\<not> key_not_configured keyed"
  by (simp add: key_defs keyed_def)


text \<open>
  C9. \<open>isResumeDocument\<close> never throws: whatever the platform, the moment and the text,
  it returns a boolean. The \<open>catch\<close> of the route around it, which \<open>on_miss\<close> models by
  the case \<open>Inl\<close>, is therefore never taken.
\<close>

theorem isResumeDocument_never_throws:
  "\<exists>b. fst (isResumeDocument p m text) = Inr b"
proof (cases "key_not_configured p")
  case True
  then show ?thesis by (auto simp add: isResumeDocument_def)
next
  case False
  show ?thesis
  proof (cases "fetch m (classify_body text)")
    case FetchRejects
    with False show ?thesis by (auto simp add: isResumeDocument_def)
  next
    case (FetchResponse st json)
    show ?thesis
    proof (cases json)
      case None
      with False FetchResponse show ?thesis by (auto simp add: isResumeDocument_def)
    next
      case (Some data)
      with False FetchResponse show ?thesis
        by (cases "read_answer data") (auto simp add: isResumeDocument_def)
    qed
  qed
qed

text \<open>
  \<open>isResumeDocument\<close>, case by case. It returns true when no key is configured, when
  \<open>fetch\<close> throws, when the status is not a success, when the body is no JSON, and when
  the text of the answer is truthy and no string (\<open>trim\<close> throws inside the \<open>try\<close>). On a
  2xx answer with a text it returns whether the text, trimmed and in lower case, starts
  with "yes"; an answer without a text is read as the empty text, by \<open>|| ""\<close>.
\<close>

lemma isResumeDocument_cases:
  "(key_not_configured p \<longrightarrow> fst (isResumeDocument p m text) = Inr True) \<and>
   (\<not> key_not_configured p \<and> fetch m (classify_body text) = FetchRejects
      \<longrightarrow> fst (isResumeDocument p m text) = Inr True) \<and>
   (\<not> key_not_configured p \<and> fetch m (classify_body text) = FetchResponse st json \<and>
      \<not> response_ok st
      \<longrightarrow> fst (isResumeDocument p m text) = Inr True) \<and>
   (\<not> key_not_configured p \<and> fetch m (classify_body text) = FetchResponse st None \<and>
      response_ok st
      \<longrightarrow> fst (isResumeDocument p m text) = Inr True) \<and>
   (\<not> key_not_configured p \<and> fetch m (classify_body text) = FetchResponse st (Some data) \<and>
      response_ok st \<and> or_else (candidate_text data) (JStr []) = JStr s
      \<longrightarrow> fst (isResumeDocument p m text) = Inr (startsWith (toLowerCase (trim s)) ''yes'')) \<and>
   (\<not> key_not_configured p \<and> fetch m (classify_body text) = FetchResponse st (Some data) \<and>
      response_ok st \<and> (\<forall>s. or_else (candidate_text data) (JStr []) \<noteq> JStr s)
      \<longrightarrow> fst (isResumeDocument p m text) = Inr True)"
proof -
  have no_key: "fst (isResumeDocument p m text) = Inr True" if "key_not_configured p"
    using that by (simp add: isResumeDocument_def)
  have rejects: "fst (isResumeDocument p m text) = Inr True"
    if "\<not> key_not_configured p" and "fetch m (classify_body text) = FetchRejects"
    using that by (simp add: isResumeDocument_def)
  have bad_status: "fst (isResumeDocument p m text) = Inr True"
    if "\<not> key_not_configured p" and "fetch m (classify_body text) = FetchResponse st json"
      and "\<not> response_ok st"
    using that by (simp add: isResumeDocument_def)
  have no_json: "fst (isResumeDocument p m text) = Inr True"
    if "\<not> key_not_configured p" and "fetch m (classify_body text) = FetchResponse st None"
      and "response_ok st"
    using that by (simp add: isResumeDocument_def)
  have answered: "fst (isResumeDocument p m text) = Inr (startsWith (toLowerCase (trim s)) ''yes'')"
    if "\<not> key_not_configured p"
      and "fetch m (classify_body text) = FetchResponse st (Some data)" and "response_ok st"
      and "or_else (candidate_text data) (JStr []) = JStr s"
    using that by (simp add: isResumeDocument_def read_answer_def)
  have no_string: "fst (isResumeDocument p m text) = Inr True"
    if "\<not> key_not_configured p"
      and "fetch m (classify_body text) = FetchResponse st (Some data)" and "response_ok st"
      and "\<forall>s. or_else (candidate_text data) (JStr []) \<noteq> JStr s"
  proof -
    from that(4) have "read_answer data = Inl TypeError"
      by (cases "or_else (candidate_text data) (JStr [])") (simp_all add: read_answer_def)
    with that(1-3) show ?thesis by (simp add: isResumeDocument_def)
  qed
  from no_key rejects bad_status no_json answered no_string show ?thesis by blast
qed

section \<open>The cache\<close>

lemma on_miss_stores:
  assumes "on_miss p m file text c = (r, c', calls)"
  shows "status r = 200 \<and> c' = c(sha256_hex p text \<mapsto> body r) \<and> truthy (body r)"
  using assms
  by (auto simp add: on_miss_def Let_def with_provenance_def notResumeResult_def
      split: prod.splits if_splits)

lemma process_hit:
  assumes "extractTextFromDocument p (buffer file) (mimetype file) = Extracted text"
    and "c (sha256_hex p text) = Some v" and "truthy v"
  shows "process p m (Some file) c = (\<lparr>status = 200, body = v\<rparr>, c, [])"
  using assms by (simp add: process_def)

lemma process_miss:
  assumes "extractTextFromDocument p (buffer file) (mimetype file) = Extracted text"
    and "c (sha256_hex p text) = None"
  shows "process p m (Some file) c = on_miss p m file text c"
  using assms by (simp add: process_def)

lemma process_cached_after:
  assumes ex: "extractTextFromDocument p (buffer file) (mimetype file) = Extracted text"
    and pr: "process p m (Some file) c = (r, c', calls)"
  shows "r = \<lparr>status = 200, body = body r\<rparr> \<and> c' (sha256_hex p text) = Some (body r) \<and>
         truthy (body r)"
proof (cases "c (sha256_hex p text)")
  case None
  with ex pr have "on_miss p m file text c = (r, c', calls)"
    by (simp add: process_def)
  from on_miss_stores [OF this] show ?thesis by simp
next
  case (Some v)
  show ?thesis
  proof (cases "truthy v")
    case True
    with ex pr Some show ?thesis by (auto simp add: process_def)
  next
    case False
    with ex pr Some have "on_miss p m file text c = (r, c', calls)"
      by (simp add: process_def)
    from on_miss_stores [OF this] show ?thesis by simp
  qed
qed

lemma process_ok_extracted:
  assumes "process p m (Some file) c = (r, c', calls)" and "status r = 200"
  shows "\<exists>text. extractTextFromDocument p (buffer file) (mimetype file) = Extracted text"
  using assms by (cases "extractTextFromDocument p (buffer file) (mimetype file)")
    (auto simp add: process_def)

text \<open>
  C7. When a first call of \<open>process\<close> on an upload has answered 200, the cache it leaves
  holds the body of its response under the digest of the extracted text, and a second
  call on the same upload with that cache returns this cached result as the very same
  response, leaves the cache as it is and posts nothing to Gemini, whatever the second
  moment is.
\<close>

theorem second_call_returns_cached:
  assumes "process p m1 (Some file) c = (r1, c1, calls1)" and "status r1 = 200"
  shows "\<exists>text. extractTextFromDocument p (buffer file) (mimetype file) = Extracted text \<and>
           c1 (sha256_hex p text) = Some (body r1) \<and>
           process p m2 (Some file) c1 = (\<lparr>status = 200, body = body r1\<rparr>, c1, []) \<and>
           process p m2 (Some file) c1 = (r1, c1, [])"
proof -
  from process_ok_extracted [OF assms] obtain t where
    ex: "extractTextFromDocument p (buffer file) (mimetype file) = Extracted t" ..
  from process_cached_after [OF ex assms(1)] have
    r: "r1 = \<lparr>status = 200, body = body r1\<rparr>" and
    c: "c1 (sha256_hex p t) = Some (body r1)" and tr: "truthy (body r1)"
    by simp_all
  have hit: "process p m2 (Some file) c1 = (\<lparr>status = 200, body = body r1\<rparr>, c1, [])"
    by (rule process_hit [where c = c1 and m = m2, OF ex c tr])
  with r have "process p m2 (Some file) c1 = (r1, c1, [])"
    by simp
  with ex c hit show ?thesis by blast
qed


section \<open>The sample requests\<close>

lemma fetch_answering_classify:
  "fetch (answering v a) (classify_body t) = FetchResponse 200 (Some (gemini_reply v))"
  by (simp add: answering_def classify_body_def)

lemma fetch_answering_analyze:
  "fetch (answering v a) (analyze_body t) = FetchResponse 200 (Some (gemini_reply a))"
  by (simp add: answering_def analyze_body_def)

lemma fetch_failing_classify:
  "fetch (failing v) (classify_body t) = FetchResponse 200 (Some (gemini_reply v))"
  by (simp add: failing_def classify_body_def)

lemma fetch_failing_analyze:
  "fetch (failing v) (analyze_body t) = FetchResponse 503 None"
  by (simp add: failing_def analyze_body_def)

lemma response_ok_200: "response_ok 200"
  by (simp add: response_ok_def)

lemma response_not_ok_503: "\<not> response_ok 503"
  by (simp add: response_ok_def)

lemma read_answer_reply:
  "read_answer (gemini_reply v) = Inr (startsWith (toLowerCase (trim v)) ''yes'')"
  by (simp add: read_answer_def candidate_text_reply or_else_def)

lemma isResumeDocument_keyed_answering:
  "isResumeDocument keyed (answering v a) t =
     (Inr (startsWith (toLowerCase (trim v)) ''yes''), [classify_body t])"
  by (simp add: isResumeDocument_def keyed_configured fetch_answering_classify response_ok_200
      read_answer_reply)

lemma isResumeDocument_keyed_failing:
  "isResumeDocument keyed (failing v) t =
     (Inr (startsWith (toLowerCase (trim v)) ''yes''), [classify_body t])"
  by (simp add: isResumeDocument_def keyed_configured fetch_failing_classify response_ok_200
      read_answer_reply)


lemma yes_is_yes: "startsWith (toLowerCase (trim ''yes'')) ''yes''"
  by (simp add: string_defs)

lemma NO_is_no: "toLowerCase (trim ''NO'') = ''no''"
  by (simp add: string_defs)

lemma blank_text_trims_empty: "trim blank_text = []"
  by (simp add: string_defs blank_text_def)

lemma resume_text_not_blank: "trim resume_text \<noteq> []"
  by (simp add: string_defs resume_text_def)

lemma strip_code_fence_plain: "strip_code_fence ''{}'' = ''{}''"
  by (simp add: strip_code_fence_def string_defs fence_def endsWith_def)

lemma strip_code_fence_fenced:
  "strip_code_fence (fence @ ''JSON'' @ [CHR 0x0A] @ ''{}'' @ [CHR 0x0A] @ fence @ '' '') = ''{}''"
  by (simp add: strip_code_fence_def string_defs fence_def endsWith_def)

lemma extract_samples:
  "extractTextFromDocument keyed (buffer cv_pdf) (mimetype cv_pdf) = Extracted resume_text"
  "extractTextFromDocument keyed (buffer cv_docx) (mimetype cv_docx) = Extracted resume_text"
  "extractTextFromDocument keyed (buffer blank_pdf) (mimetype blank_pdf) = Extracted blank_text"
  "extractTextFromDocument keyed (buffer recipe_pdf) (mimetype recipe_pdf) = Extracted recipe_text"
  "extractTextFromDocument keyless (buffer cv_pdf) (mimetype cv_pdf) = Extracted resume_text"
  "extractTextFromDocument keyless (buffer cv_docx) (mimetype cv_docx) = Extracted resume_text"
  by (simp_all add: keyed_def keyless_def sample_extract_def cv_pdf_def cv_docx_def
      blank_pdf_def recipe_pdf_def)

lemma analyze_blank: "analyzeResumeWithGemini p m blank_text = (Inl EmptyText, [])"
  by (simp add: analyzeResumeWithGemini_def blank_text_trims_empty)

lemma analyze_keyed_failing:
  "analyzeResumeWithGemini keyed (failing v) resume_text =
     (Inl (ServiceError 503), [analyze_body resume_text])"
  by (simp add: analyzeResumeWithGemini_def resume_text_not_blank keyed_configured
      fetch_failing_analyze response_not_ok_503) (simp add: resume_text_def)


lemma fill_empty_object:
  "fillSectionDefaults (JObj []) =
     Inr (JObj [(''feedback'', JObj [(''keywords'', no_feedback), (''experience'', no_feedback),
        (''skills'', no_feedback), (''education'', no_feedback), (''formatting'', no_feedback)]),
        (''improvementSuggestions'', no_suggestions)])"
  by (simp add: fillSectionDefaults_def get_member_def obj_spread_def opt_member_def or_else_def
      suggestions_or_default_def)

lemma analyze_keyed_empty_object:
  "analyzeResumeWithGemini keyed (answering v ''{}'') resume_text =
     (Inr bare_result, [analyze_body resume_text])"
  apply (simp add: analyzeResumeWithGemini_def resume_text_not_blank keyed_configured
      fetch_answering_analyze response_ok_200 read_analysis_def candidate_text_reply or_else_def
      strip_code_fence_plain)
  apply (simp add: keyed_def sample_parse_def resume_text_def fill_empty_object bare_result_def)
  done

section \<open>The route after a cache miss\<close>

lemma result_keys_named:
  "list_all (\<lambda>k. named_key k \<and> map_of (provenance m file) k = None) result_keys"
  by (simp add: result_keys_def score_keys_def provenance_def named_key_def)

lemma with_provenance_result_key:
  assumes "k \<in> set result_keys"
  shows "js_get (with_provenance m file v) k = js_get v k"
proof -
  from assms result_keys_named [of m "file"]
  have "named_key k \<and> map_of (provenance m file) k = None"
    by (simp add: list_all_iff)
  then show ?thesis
    unfolding with_provenance_def by (intro js_get_obj_spread_named) simp_all
qed

lemma with_provenance_score:
  "k \<in> set score_keys \<Longrightarrow> js_get (with_provenance m file v) k = js_get v k"
  by (rule with_provenance_result_key) (simp add: result_keys_def)



lemma technical_fallback_scores:
  "list_all (\<lambda>k. js_get technical_fallback k = JNum 70) score_keys"
  by (simp add: score_keys_def technical_fallback_def scored_result_def)


lemma not_resume_scores:
  "list_all (\<lambda>k. js_get (notResumeResult m file) k = JNum 0) score_keys"
  by (simp add: score_keys_def notResumeResult_def scored_result_def provenance_def)

lemma on_miss_not_resume:
  assumes "fst (isResumeDocument p m text) = Inr False"
  shows "on_miss p m file text c =
     (\<lparr>status = 200, body = notResumeResult m file\<rparr>,
      c(sha256_hex p text \<mapsto> notResumeResult m file), snd (isResumeDocument p m text))"
  using assms by (cases "isResumeDocument p m text") (simp add: on_miss_def Let_def)

lemma on_miss_analyzed:
  assumes "fst (isResumeDocument p m text) = Inr True"
  shows "on_miss p m file text c =
     (\<lparr>status = 200,
       body = with_provenance m file
         (case fst (analyzeResumeWithGemini p m text) of
            Inr r \<Rightarrow> r | Inl e \<Rightarrow> technical_fallback)\<rparr>,
      c(sha256_hex p text \<mapsto> with_provenance m file
         (case fst (analyzeResumeWithGemini p m text) of
            Inr r \<Rightarrow> r | Inl e \<Rightarrow> technical_fallback)),
      snd (isResumeDocument p m text) @ snd (analyzeResumeWithGemini p m text))"
  using assms
  by (cases "isResumeDocument p m text"; cases "analyzeResumeWithGemini p m text")
     (simp add: on_miss_def Let_def)

text \<open>
  C3. On a cache miss, when the classifier has answered true and the analyzer throws
  (service unavailable, malformed response, or any other error), the route answers 200
  with the technical fallback under the provenance of the upload, all six scores 70,
  and stores that result in the cache under the digest of the text.
\<close>

theorem analysis_error_gives_fallback:
  assumes "extractTextFromDocument p (buffer file) (mimetype file) = Extracted text"
    and "c (sha256_hex p text) = None"
    and "fst (isResumeDocument p m text) = Inr True"
    and "fst (analyzeResumeWithGemini p m text) = Inl e"
  shows "fst (process p m (Some file) c) =
           \<lparr>status = 200, body = with_provenance m file technical_fallback\<rparr> \<and>
         fst (snd (process p m (Some file) c)) (sha256_hex p text) =
           Some (with_provenance m file technical_fallback) \<and>
         list_all (\<lambda>k. js_get (with_provenance m file technical_fallback) k = JNum 70)
           score_keys"
proof -
  have "process p m (Some file) c = on_miss p m file text c"
    using assms(1,2) by (rule process_miss)
  then have "fst (process p m (Some file) c) =
           \<lparr>status = 200, body = with_provenance m file technical_fallback\<rparr> \<and>
         fst (snd (process p m (Some file) c)) (sha256_hex p text) =
           Some (with_provenance m file technical_fallback)"
    by (simp add: on_miss_analyzed [OF assms(3)] assms(4))
  moreover have "list_all (\<lambda>k. js_get (with_provenance m file technical_fallback) k = JNum 70)
           score_keys"
    using technical_fallback_scores by (simp add: list_all_iff with_provenance_score)
  ultimately show ?thesis by simp
qed

theorem analysis_error_gives_fallback_witness:
  "extractTextFromDocument keyed (buffer cv_pdf) (mimetype cv_pdf) = Extracted resume_text \<and>
   \<not> key_not_configured keyed \<and>
   fst (isResumeDocument keyed (failing ''yes'') resume_text) = Inr True \<and>
   fst (analyzeResumeWithGemini keyed (failing ''yes'') resume_text) = Inl (ServiceError 503) \<and>
   fst (process keyed (failing ''yes'') (Some cv_pdf) Map.empty) =
     \<lparr>status = 200, body = with_provenance (failing ''yes'') cv_pdf technical_fallback\<rparr> \<and>
   fst (snd (process keyed (failing ''yes'') (Some cv_pdf) Map.empty))
       (sha256_hex keyed resume_text) =
     Some (with_provenance (failing ''yes'') cv_pdf technical_fallback) \<and>
   js_get (with_provenance (failing ''yes'') cv_pdf technical_fallback) ''overallScore'' = JNum 70"
proof -
  have cls: "fst (isResumeDocument keyed (failing ''yes'') resume_text) = Inr True"
    by (simp add: isResumeDocument_keyed_failing yes_is_yes)
  have err: "fst (analyzeResumeWithGemini keyed (failing ''yes'') resume_text)
      = Inl (ServiceError 503)"
    by (simp add: analyze_keyed_failing)
  have miss: "Map.empty (sha256_hex keyed resume_text) = None"
    by simp
  from analysis_error_gives_fallback [OF extract_samples(1) miss cls err]
  show ?thesis
    by (simp add: extract_samples(1) keyed_configured cls err score_keys_def)
qed



lemma process_keyed_cv:
  "process keyed (answering ''yes'' ''{}'') (Some cv_pdf) Map.empty =
     (\<lparr>status = 200, body = with_provenance (answering ''yes'' ''{}'') cv_pdf bare_result\<rparr>,
      [sha256_hex keyed resume_text \<mapsto>
         with_provenance (answering ''yes'' ''{}'') cv_pdf bare_result],
      [classify_body resume_text, analyze_body resume_text])"
proof -
  have "process keyed (answering ''yes'' ''{}'') (Some cv_pdf) Map.empty =
      on_miss keyed (answering ''yes'' ''{}'') cv_pdf resume_text Map.empty"
    by (rule process_miss [OF extract_samples(1)]) simp
  also have "\<dots> =
     (\<lparr>status = 200, body = with_provenance (answering ''yes'' ''{}'') cv_pdf bare_result\<rparr>,
      [sha256_hex keyed resume_text \<mapsto>
         with_provenance (answering ''yes'' ''{}'') cv_pdf bare_result],
      [classify_body resume_text, analyze_body resume_text])"
    by (subst on_miss_analyzed)
       (simp_all add: isResumeDocument_keyed_answering yes_is_yes analyze_keyed_empty_object)
  finally show ?thesis .
qed

text \<open>The first call posts the text to the classifier and to the analyzer. The second
  call comes at a moment when Gemini would answer the classifier "no": it posts nothing
  and returns what the first call stored.\<close>

theorem second_call_returns_cached_witness:
  "process keyed (answering ''yes'' ''{}'') (Some cv_pdf) Map.empty =
     (\<lparr>status = 200, body = with_provenance (answering ''yes'' ''{}'') cv_pdf bare_result\<rparr>,
      [sha256_hex keyed resume_text \<mapsto>
         with_provenance (answering ''yes'' ''{}'') cv_pdf bare_result],
      [classify_body resume_text, analyze_body resume_text]) \<and>
   extractTextFromDocument keyed (buffer cv_pdf) (mimetype cv_pdf) = Extracted resume_text \<and>
   process keyed (answering ''no'' ''{}'') (Some cv_pdf)
       [sha256_hex keyed resume_text \<mapsto>
          with_provenance (answering ''yes'' ''{}'') cv_pdf bare_result] =
     (\<lparr>status = 200, body = with_provenance (answering ''yes'' ''{}'') cv_pdf bare_result\<rparr>,
      [sha256_hex keyed resume_text \<mapsto>
         with_provenance (answering ''yes'' ''{}'') cv_pdf bare_result],
      [])"
proof -
  have st: "status \<lparr>status = 200,
      body = with_provenance (answering ''yes'' ''{}'') cv_pdf bare_result\<rparr> = 200"
    by simp
  from second_call_returns_cached [OF process_keyed_cv st, of "answering ''no'' ''{}''"]
  show ?thesis
    by (simp add: process_keyed_cv extract_samples(1))
qed


lemma not_resume_feedback:
  "list_all (\<lambda>k. feedback_field (notResumeResult m file) k =
      JStr ''This document does not appear to be a resume. Please upload a valid resume (CV) for analysis.'')
     feedback_keys"
  by (simp add: feedback_keys_def feedback_field_def notResumeResult_def scored_result_def
      provenance_def opt_member_def not_resume_text_def)

lemma not_resume_suggestions:
  "js_get (notResumeResult m file) ''improvementSuggestions'' =
     JArr [JStr ''Please upload a resume or CV document for accurate analysis.'']"
  by (simp add: notResumeResult_def scored_result_def provenance_def)

lemma no_is_not_yes: "toLowerCase (trim s) = ''no'' \<Longrightarrow> \<not> startsWith (toLowerCase (trim s)) ''yes''"
  by (simp add: startsWith_def)

text \<open>
  C6. On a cache miss with a key configured, when the call of the classifier succeeds and
  its answer, trimmed and in lower case, is "no", \<open>process\<close> answers 200 with the
  not-a-resume result: all six scores 0, every feedback field the fixed message, the one
  suggestion to upload a resume. It stores this result under the digest, and a later
  call for an upload with the same text returns it as it is, posting nothing to Gemini.
\<close>

theorem classifier_no_gives_not_resume:
  assumes ex: "extractTextFromDocument p (buffer file) (mimetype file) = Extracted text"
    and miss: "c (sha256_hex p text) = None"
    and key: "\<not> key_not_configured p"
    and ans: "fetch m (classify_body text) = FetchResponse st (Some data)"
    and ok: "response_ok st"
    and str: "or_else (candidate_text data) (JStr []) = JStr s"
    and neg: "toLowerCase (trim s) = ''no''"
    and ex2: "extractTextFromDocument p (buffer file2) (mimetype file2) = Extracted text"
  shows "process p m (Some file) c =
           (\<lparr>status = 200, body = notResumeResult m file\<rparr>,
            c(sha256_hex p text \<mapsto> notResumeResult m file), [classify_body text]) \<and>
         list_all (\<lambda>k. js_get (notResumeResult m file) k = JNum 0) score_keys \<and>
         list_all (\<lambda>k. feedback_field (notResumeResult m file) k =
             JStr ''This document does not appear to be a resume. Please upload a valid resume (CV) for analysis.'')
           feedback_keys \<and>
         js_get (notResumeResult m file) ''improvementSuggestions'' =
           JArr [JStr ''Please upload a resume or CV document for accurate analysis.''] \<and>
         process p m2 (Some file2) (c(sha256_hex p text \<mapsto> notResumeResult m file)) =
           (\<lparr>status = 200, body = notResumeResult m file\<rparr>,
            c(sha256_hex p text \<mapsto> notResumeResult m file), [])"
proof -
  have cls: "isResumeDocument p m text = (Inr False, [classify_body text])"
    using key ans ok str no_is_not_yes [OF neg]
    by (simp add: isResumeDocument_def read_answer_def)
  have first: "process p m (Some file) c =
           (\<lparr>status = 200, body = notResumeResult m file\<rparr>,
            c(sha256_hex p text \<mapsto> notResumeResult m file), [classify_body text])"
    by (simp add: process_miss [where c = c, OF ex miss] on_miss_not_resume cls)
  have hit: "(c(sha256_hex p text \<mapsto> notResumeResult m file)) (sha256_hex p text) =
      Some (notResumeResult m file)"
    by simp
  have tr: "truthy (notResumeResult m file)"
    by (simp add: notResumeResult_def)
  have second: "process p m2 (Some file2) (c(sha256_hex p text \<mapsto> notResumeResult m file)) =
           (\<lparr>status = 200, body = notResumeResult m file\<rparr>,
            c(sha256_hex p text \<mapsto> notResumeResult m file), [])"
    by (rule process_hit [where c = "c(sha256_hex p text \<mapsto> notResumeResult m file)", OF ex2 hit tr])
  from first second not_resume_scores not_resume_feedback not_resume_suggestions
  show ?thesis by blast
qed

theorem classifier_no_gives_not_resume_witness:
  "extractTextFromDocument keyed (buffer recipe_pdf) (mimetype recipe_pdf) = Extracted recipe_text \<and>
   \<not> key_not_configured keyed \<and>
   fetch (answering ''NO'' ''{}'') (classify_body recipe_text) =
     FetchResponse 200 (Some (gemini_reply ''NO'')) \<and>
   toLowerCase (trim ''NO'') = ''no'' \<and>
   process keyed (answering ''NO'' ''{}'') (Some recipe_pdf) Map.empty =
     (\<lparr>status = 200, body = notResumeResult (answering ''NO'' ''{}'') recipe_pdf\<rparr>,
      [sha256_hex keyed recipe_text \<mapsto> notResumeResult (answering ''NO'' ''{}'') recipe_pdf],
      [classify_body recipe_text]) \<and>
   js_get (notResumeResult (answering ''NO'' ''{}'') recipe_pdf) ''overallScore'' = JNum 0 \<and>
   process keyed later (Some recipe_pdf)
       [sha256_hex keyed recipe_text \<mapsto> notResumeResult (answering ''NO'' ''{}'') recipe_pdf] =
     (\<lparr>status = 200, body = notResumeResult (answering ''NO'' ''{}'') recipe_pdf\<rparr>,
      [sha256_hex keyed recipe_text \<mapsto> notResumeResult (answering ''NO'' ''{}'') recipe_pdf],
      [])"
proof -
  have miss: "Map.empty (sha256_hex keyed recipe_text) = None"
    by simp
  have str: "or_else (candidate_text (gemini_reply ''NO'')) (JStr []) = JStr ''NO''"
    by (simp add: candidate_text_reply or_else_def)
  from classifier_no_gives_not_resume [where c = Map.empty and ?m2.0 = later,
      OF extract_samples(4) miss keyed_configured
      fetch_answering_classify [of "''NO''" "''{}''"] response_ok_200 str NO_is_no
      extract_samples(4)]
  show ?thesis
    by (simp add: extract_samples(4) keyed_configured fetch_answering_classify NO_is_no
        score_keys_def)
qed

text \<open>
  C4. A key is configured and Gemini answers the classifier 200 with a JSON body that
  has no candidate, so no text: an answer that cannot be read. The claim asks for true,
  as the comments of the function do ("Assume it's a resume if ... fails"). The missing
  text is read as the empty text, which does not start with "yes": \<open>isResumeDocument\<close>
  returns false, and on a cache miss the route answers with the not-a-resume result and
  stores it.
\<close>

theorem answer_without_text_fails_closed:
  "\<not> key_not_configured keyed \<and>
   fetch blocking (classify_body resume_text) = FetchResponse 200 (Some blocked_reply) \<and>
   response_ok 200 \<and>
   candidate_text blocked_reply = JUndefined \<and>
   isResumeDocument keyed blocking resume_text = (Inr False, [classify_body resume_text]) \<and>
   process keyed blocking (Some cv_pdf) Map.empty =
     (\<lparr>status = 200, body = notResumeResult blocking cv_pdf\<rparr>,
      [sha256_hex keyed resume_text \<mapsto> notResumeResult blocking cv_pdf],
      [classify_body resume_text])"
proof -
  have f: "fetch blocking (classify_body resume_text) = FetchResponse 200 (Some blocked_reply)"
    by (simp add: blocking_def)
  have t: "candidate_text blocked_reply = JUndefined"
    by (simp add: candidate_text_def blocked_reply_def opt_member_def)
  have r: "read_answer blocked_reply = Inr False"
    by (simp add: read_answer_def t or_else_def string_defs)
  have cls: "isResumeDocument keyed blocking resume_text = (Inr False, [classify_body resume_text])"
    by (simp add: isResumeDocument_def keyed_configured f response_ok_200 r)
  have "process keyed blocking (Some cv_pdf) Map.empty =
      on_miss keyed blocking cv_pdf resume_text Map.empty"
    by (rule process_miss [OF extract_samples(1)]) simp
  also have "\<dots> =
     (\<lparr>status = 200, body = notResumeResult blocking cv_pdf\<rparr>,
      [sha256_hex keyed resume_text \<mapsto> notResumeResult blocking cv_pdf],
      [classify_body resume_text])"
    by (subst on_miss_not_resume) (simp_all add: cls)
  finally show ?thesis
    using f t cls by (simp add: keyed_configured response_ok_200)
qed

text \<open>
  C2. An upload whose extracted text is three spaces, with a key configured and an empty
  cache. The analyzer throws its "Resume text is empty" error, but the route has already
  posted the text to the classifier, and its \<open>catch\<close> around the analyzer takes the
  error for a failure of Gemini: the answer is 200 with the technical fallback, stored in
  the cache. The claim asks for a client error, no external call and no cache entry.
\<close>

theorem blank_text_gets_fallback:
  "extractTextFromDocument keyed (buffer blank_pdf) (mimetype blank_pdf) = Extracted blank_text \<and>
   trim blank_text = [] \<and>
   analyzeResumeWithGemini keyed (answering ''yes'' ''{}'') blank_text = (Inl EmptyText, []) \<and>
   process keyed (answering ''yes'' ''{}'') (Some blank_pdf) Map.empty =
     (\<lparr>status = 200, body = with_provenance (answering ''yes'' ''{}'') blank_pdf technical_fallback\<rparr>,
      [sha256_hex keyed blank_text \<mapsto>
         with_provenance (answering ''yes'' ''{}'') blank_pdf technical_fallback],
      [classify_body blank_text])"
proof -
  have "process keyed (answering ''yes'' ''{}'') (Some blank_pdf) Map.empty =
      on_miss keyed (answering ''yes'' ''{}'') blank_pdf blank_text Map.empty"
    by (rule process_miss [OF extract_samples(3)]) simp
  also have "\<dots> =
     (\<lparr>status = 200, body = with_provenance (answering ''yes'' ''{}'') blank_pdf technical_fallback\<rparr>,
      [sha256_hex keyed blank_text \<mapsto>
         with_provenance (answering ''yes'' ''{}'') blank_pdf technical_fallback],
      [classify_body blank_text])"
    by (subst on_miss_analyzed)
       (simp_all add: isResumeDocument_keyed_answering yes_is_yes analyze_blank)
  finally show ?thesis
    by (simp add: extract_samples(3) blank_text_trims_empty analyze_blank)
qed

section \<open>The shape of what the route returns\<close>





















lemma process_keyed_bare:
  "fst (process keyed (answering ''yes'' ''{}'') (Some cv_pdf) Map.empty) =
     \<lparr>status = 200, body = with_provenance (answering ''yes'' ''{}'') cv_pdf bare_result\<rparr>"
  by (simp add: process_keyed_cv)

lemma bare_result_scores: "list_all (\<lambda>k. js_get bare_result k = JUndefined) score_keys"
  by (simp add: bare_result_def score_keys_def)






section \<open>The lookup by id\<close>

lemmas parse_defs = parseInt_def is_radix_digit_def digit_table_def digits_to_nat_def
  digit_value_def is_ws_def ws_chars_def Let_def

lemma parseInt_samples:
  "parseInt ''abc'' = None"
  "parseInt ''12abc'' = Some (Exact 12)"
  "parseInt ''42abc'' = Some (Exact 42)"
  "parseInt ''42'' = Some (Exact 42)"
  "parseInt ''7'' = Some (Exact 7)"
  "parseInt '' -7'' = Some (Exact (- 7))"
  "parseInt ''0x1F'' = Some (Exact 31)"
  "parseInt ''9007199254740993'' = Some (Beyond 9007199254740993)"
  "parseInt [] = None"
  by (simp_all add: parse_defs)

lemma digits_checked:
  "list_all (\<lambda>c. \<not> is_ws c \<and> c \<noteq> CHR ''-'' \<and> c \<noteq> CHR ''+'' \<and> c \<noteq> CHR ''x'' \<and>
      c \<noteq> CHR ''X'' \<and> is_radix_digit 10 c) ''0123456789''"
  by (simp add: is_ws_def ws_chars_def is_radix_digit_def digit_table_def)

lemma digit_facts:
  assumes "c \<in> set ''0123456789''"
  shows "\<not> is_ws c \<and> c \<noteq> CHR ''-'' \<and> c \<noteq> CHR ''+'' \<and> c \<noteq> CHR ''x'' \<and> c \<noteq> CHR ''X'' \<and>
         is_radix_digit 10 c"
  using assms digits_checked unfolding list_all_iff by blast

text \<open>A numeral is always read: as its value up to \<open>2^53\<close>, as the engine's Number for
  its value beyond.\<close>

lemma numeric_id_parses:
  assumes "numeric_id s"
  shows "parseInt s =
     Some (if digits_to_nat 10 s \<le> 9007199254740992 then Exact (int (digits_to_nat 10 s))
           else Beyond (int (digits_to_nat 10 s)))"
proof -
  from assms obtain c cs where s: "s = c # cs" and c: "c \<in> set ''0123456789''"
    and cs: "\<forall>d \<in> set cs. d \<in> set ''0123456789''"
    by (cases s) (auto simp add: numeric_id_def list_all_iff)
  have all: "\<forall>d \<in> set s. is_radix_digit 10 d"
    using s c cs digit_facts by auto
  have tw: "takeWhile (is_radix_digit 10) s = s"
    using all by simp
  have dw: "dropWhile is_ws s = s"
    using s digit_facts [OF c] by simp
  have t1: "take 1 s = [c]"
    by (simp add: s)
  have nohex: "take 2 s \<noteq> ''0x'' \<and> take 2 s \<noteq> ''0X''"
  proof (cases cs)
    case Nil
    with s show ?thesis by simp
  next
    case (Cons d ds)
    with cs digit_facts [of d] have "d \<noteq> CHR ''x'' \<and> d \<noteq> CHR ''X''" by simp
    with s Cons show ?thesis by (simp add: numeral_2_eq_2)
  qed
  from digit_facts [OF c] have e1: "([c] = ''-'') = False" and e2: "([c] = ''+'') = False"
    by simp_all
  from nohex have e3: "(take 2 s = ''0x'') = False" and e4: "(take 2 s = ''0X'') = False"
    by simp_all
  have ne: "(s = []) = False"
    by (simp add: s)
  have "parseInt s =
     (if digits_to_nat 10 s \<le> 9007199254740992 then Some (Exact (1 * int (digits_to_nat 10 s)))
      else Some (Beyond (1 * int (digits_to_nat 10 s))))"
    by (simp only: parseInt_def Let_def dw t1 e1 e2 e3 e4 tw ne simp_thms if_False)
  then show ?thesis by simp
qed

text \<open>The route, case by case.\<close>

lemma get_analysis_cases:
  "(parseInt idp = None \<longrightarrow>
      get_analysis engine store m idp = \<lparr>status = 400, body = message ''Invalid ID format''\<rparr>) \<and>
   (parseInt idp = Some n \<and> store n = LookupReturns a \<and> \<not> truthy a \<longrightarrow>
      get_analysis engine store m idp =
        \<lparr>status = 404, body = message ''Analysis not found''\<rparr>) \<and>
   (parseInt idp = Some n \<and> store n = LookupReturns a \<and> truthy a \<longrightarrow>
      get_analysis engine store m idp = \<lparr>status = 200, body = a\<rparr>) \<and>
   (parseInt idp = Some n \<and> store n = LookupThrows \<longrightarrow>
      get_analysis engine store m idp =
        \<lparr>status = 200, body = demo_analysis m (id_value engine n)\<rparr>)"
  by (cases "parseInt idp") (auto simp add: get_analysis_def)

text \<open>
  C8. The ids \<open>12abc\<close> and \<open>42abc\<close> are no numerals, and the claim asks for 400. The test
  of the route, "Invalid ID format", is \<open>isNaN(parseInt(id))\<close>, and \<open>parseInt\<close> reads the
  digits an id starts with: \<open>12abc\<close> is looked up as 12 and answered 404 when there is no
  such row, \<open>42abc\<close> is answered 200 with the row 42, whatever the engine and the moment.
\<close>

theorem prefix_id_is_looked_up:
  "\<not> numeric_id ''12abc'' \<and> \<not> numeric_id ''42abc'' \<and>
   parseInt ''12abc'' = Some (Exact 12) \<and>
   get_analysis engine no_rows m ''12abc'' =
     \<lparr>status = 404, body = message ''Analysis not found''\<rparr> \<and>
   parseInt ''42abc'' = Some (Exact 42) \<and>
   get_analysis engine one_row m ''42abc'' = \<lparr>status = 200, body = stored_row\<rparr>"
  by (simp add: get_analysis_def parseInt_samples numeric_id_def no_rows_def one_row_def
      stored_row_def)

end
